theory Spec2Isabelle
  imports Main
begin

section \<open>The optional container of \<^verbatim>\<open>include/fplus/maybe.h\<close>\<close>

text \<open>
  The header defines the class template \<^verbatim>\<open>maybe<T>\<close>, whose only member is
  \<^verbatim>\<open>std::unique_ptr<T> ptr_\<close>, and a family of free functions over it. The
  development has two layers.

  \<^item> The \<^emph>\<open>value layer\<close> reads a \<^verbatim>\<open>unique_ptr<T>\<close> as what it denotes: either null or
    the one \<^verbatim>\<open>T\<close> it owns, an \<open>'a option\<close>. Every free function of the header takes
    its containers by const reference and builds its result afresh, so nothing there
    depends on addresses.
  \<^item> The \<^emph>\<open>store layer\<close> (further down) splits the pointer from the cell it points to. It is
    used for copy assignment, where the left and the right operand may be the same
    object.

  Copy construction of a \<^verbatim>\<open>T\<close> is taken to yield an equal value, and \<^verbatim>\<open>new\<close> is taken
  to succeed (memory exhaustion is outside the model).
\<close>

subsection \<open>Ways of not returning\<close>

text \<open>
  A call either returns a value or fails. The header has three ways to fail: the
  \<^verbatim>\<open>throw e\<close> of \<^verbatim>\<open>throw_on_nothing\<close>, the \<^verbatim>\<open>assert\<close> of the member
  \<^verbatim>\<open>unsafe_get_just\<close>, and the dereference \<^verbatim>\<open>*ptr_\<close> of a null pointer, which the
  language leaves undefined. A result is \<open>Inr v\<close> for a returned value and \<open>Inl\<close> of the
  failure otherwise.
\<close>

datatype 'e failure =
    Exception 'e
  | AssertionFailure
  | UndefinedBehaviour

type_synonym ('e, 'a) result = "'e failure + 'a"

definition then_result :: "('e, 'a) result \<Rightarrow> ('a \<Rightarrow> ('e, 'b) result) \<Rightarrow> ('e, 'b) result" where
  "then_result r k = (case r of Inl err \<Rightarrow> Inl err | Inr v \<Rightarrow> k v)"

text \<open>
  The macro \<^verbatim>\<open>assert\<close> of \<^verbatim>\<open><cassert>\<close>: it aborts the program when its condition is
  false, unless the translation unit is compiled with \<^verbatim>\<open>NDEBUG\<close> defined, in which case
  it expands to nothing. The flag is the parameter \<open>ndebug\<close> of every function that
  reaches the macro.
\<close>

definition cassert :: "bool \<Rightarrow> bool \<Rightarrow> ('e, unit) result" where
  "cassert ndebug cond = (if ndebug \<or> cond then Inr () else Inl AssertionFailure)"

text \<open>\<^verbatim>\<open>*p\<close> for a \<^verbatim>\<open>unique_ptr\<close>: the owned object, undefined behaviour when null.\<close>

definition deref :: "'a option \<Rightarrow> ('e, 'a) result" where
  "deref p = (case p of None \<Rightarrow> Inl UndefinedBehaviour | Some v \<Rightarrow> Inr v)"

subsection \<open>The class \<^verbatim>\<open>maybe<T>\<close>\<close>

record 'a maybe =
  ptr :: "'a option"

text \<open>Member functions (lines 24 to 26).\<close>

definition maybe_is_just :: "'a maybe \<Rightarrow> bool" where
  "maybe_is_just m = (ptr m \<noteq> None)"

definition maybe_is_nothing :: "'a maybe \<Rightarrow> bool" where
  "maybe_is_nothing m = (\<not> maybe_is_just m)"

definition maybe_unsafe_get_just :: "bool \<Rightarrow> 'a maybe \<Rightarrow> ('e, 'a) result" where
  "maybe_unsafe_get_just ndebug m =
     then_result (cassert ndebug (maybe_is_just m)) (\<lambda>_. deref (ptr m))"

text \<open>Constructors (lines 29 to 35): default, from a value, copy.\<close>

definition maybe_default :: "'a maybe" where
  "maybe_default = \<lparr>ptr = None\<rparr>"

definition maybe_from_value :: "'a \<Rightarrow> 'a maybe" where
  "maybe_from_value val_just = \<lparr>ptr = Some val_just\<rparr>"

definition maybe_copy :: "bool \<Rightarrow> 'a maybe \<Rightarrow> ('e, 'a maybe) result" where
  "maybe_copy ndebug other =
     (if maybe_is_just other
      then then_result (maybe_unsafe_get_just ndebug other) (\<lambda>v. Inr \<lparr>ptr = Some v\<rparr>)
      else Inr \<lparr>ptr = None\<rparr>)"

subsection \<open>Free functions\<close>

definition is_just :: "'a maybe \<Rightarrow> bool" where
  "is_just m = maybe_is_just m"

definition is_nothing :: "'a maybe \<Rightarrow> bool" where
  "is_nothing m = (\<not> is_just m)"

definition unsafe_get_just :: "bool \<Rightarrow> 'a maybe \<Rightarrow> ('e, 'a) result" where
  "unsafe_get_just ndebug m = maybe_unsafe_get_just ndebug m"

definition just_with_default :: "bool \<Rightarrow> 'a \<Rightarrow> 'a maybe \<Rightarrow> ('e, 'a) result" where
  "just_with_default ndebug defaultValue m =
     (if is_just m then unsafe_get_just ndebug m else Inr defaultValue)"

definition throw_on_nothing :: "bool \<Rightarrow> 'e \<Rightarrow> 'a maybe \<Rightarrow> ('e, 'a) result" where
  "throw_on_nothing ndebug e m =
     (if is_nothing m then Inl (Exception e) else unsafe_get_just ndebug m)"

definition just :: "'a \<Rightarrow> 'a maybe" where
  "just val = maybe_from_value val"

definition nothing :: "'a maybe" where
  "nothing = maybe_default"

text \<open>
  \<^verbatim>\<open>operator ==\<close> and \<^verbatim>\<open>operator !=\<close> (lines 107 to 120). The comparison of the held
  values is \<^verbatim>\<open>T\<close>'s own \<^verbatim>\<open>operator ==\<close>, the parameter \<open>eqT\<close>.
\<close>

definition maybe_eq :: "bool \<Rightarrow> ('a \<Rightarrow> 'a \<Rightarrow> bool) \<Rightarrow> 'a maybe \<Rightarrow> 'a maybe \<Rightarrow> ('e, bool) result" where
  "maybe_eq ndebug eqT x y =
     (if is_just x \<and> is_just y
      then then_result (unsafe_get_just ndebug x) (\<lambda>a.
           then_result (unsafe_get_just ndebug y) (\<lambda>b. Inr (eqT a b)))
      else Inr (is_just x = is_just y))"

definition maybe_neq :: "bool \<Rightarrow> ('a \<Rightarrow> 'a \<Rightarrow> bool) \<Rightarrow> 'a maybe \<Rightarrow> 'a maybe \<Rightarrow> ('e, bool) result" where
  "maybe_neq ndebug eqT x y = then_result (maybe_eq ndebug eqT x y) (\<lambda>b. Inr (\<not> b))"

definition flatten_maybe :: "bool \<Rightarrow> 'a maybe maybe \<Rightarrow> ('e, 'a maybe) result" where
  "flatten_maybe ndebug maybe_maybe =
     (if is_nothing maybe_maybe then Inr nothing else unsafe_get_just ndebug maybe_maybe)"

subsection \<open>Callables\<close>

text \<open>
  The functions handed to \<^verbatim>\<open>lift_maybe\<close> and \<^verbatim>\<open>and_then_maybe\<close> are arbitrary C++
  callables: a call may read and change the program state (a stub that counts its
  calls does), and it may fail. A call is therefore a function from the state before
  to a result and the state after. Whether a callable was invoked shows in the state
  it leaves behind.
\<close>

type_synonym ('s, 'e, 'a) call = "'s \<Rightarrow> ('e, 'a) result \<times> 's"

definition ret :: "'a \<Rightarrow> ('s, 'e, 'a) call" where
  "ret v = (\<lambda>s. (Inr v, s))"

definition pure_result :: "('e, 'a) result \<Rightarrow> ('s, 'e, 'a) call" where
  "pure_result r = (\<lambda>s. (r, s))"

definition seq :: "('s, 'e, 'a) call \<Rightarrow> ('a \<Rightarrow> ('s, 'e, 'b) call) \<Rightarrow> ('s, 'e, 'b) call" where
  "seq c k = (\<lambda>s. case c s of (Inl err, s1) \<Rightarrow> (Inl err, s1) | (Inr v, s1) \<Rightarrow> k v s1)"

text \<open>The closure returned by \<^verbatim>\<open>lift_maybe\<close> (lines 133 to 142).\<close>

definition lift_maybe ::
  "bool \<Rightarrow> ('a \<Rightarrow> ('s, 'e, 'b) call) \<Rightarrow> 'a maybe \<Rightarrow> ('s, 'e, 'b maybe) call" where
  "lift_maybe ndebug f = (\<lambda>m.
     if is_just m
     then seq (pure_result (unsafe_get_just ndebug m)) (\<lambda>a. seq (f a) (\<lambda>b. ret (just b)))
     else ret nothing)"

text \<open>
  The closure returned by the two-function \<^verbatim>\<open>and_then_maybe\<close> (lines 161 to 174). The
  header only asks that the value type of \<open>f\<close>'s result be convertible to the parameter
  type of \<open>g\<close>; here the two are the same type \<open>'y\<close>.
\<close>

definition and_then_maybe ::
  "bool \<Rightarrow> ('x \<Rightarrow> ('s, 'e, 'y maybe) call) \<Rightarrow> ('y \<Rightarrow> ('s, 'e, 'z maybe) call)
     \<Rightarrow> 'x \<Rightarrow> ('s, 'e, 'z maybe) call" where
  "and_then_maybe ndebug f g = (\<lambda>x.
     seq (f x) (\<lambda>maybeB.
       if is_just maybeB
       then seq (pure_result (unsafe_get_just ndebug maybeB)) g
       else ret nothing))"

text \<open>The three- and four-function overloads (lines 184 to 200).\<close>

definition and_then_maybe3 ::
  "bool \<Rightarrow> ('x \<Rightarrow> ('s, 'e, 'y maybe) call) \<Rightarrow> ('y \<Rightarrow> ('s, 'e, 'z maybe) call)
     \<Rightarrow> ('z \<Rightarrow> ('s, 'e, 'u maybe) call) \<Rightarrow> 'x \<Rightarrow> ('s, 'e, 'u maybe) call" where
  "and_then_maybe3 ndebug f g h = and_then_maybe ndebug (and_then_maybe ndebug f g) h"

definition and_then_maybe4 ::
  "bool \<Rightarrow> ('x \<Rightarrow> ('s, 'e, 'y maybe) call) \<Rightarrow> ('y \<Rightarrow> ('s, 'e, 'z maybe) call)
     \<Rightarrow> ('z \<Rightarrow> ('s, 'e, 'u maybe) call) \<Rightarrow> ('u \<Rightarrow> ('s, 'e, 'w maybe) call)
     \<Rightarrow> 'x \<Rightarrow> ('s, 'e, 'w maybe) call" where
  "and_then_maybe4 ndebug f g h i =
     and_then_maybe ndebug (and_then_maybe ndebug (and_then_maybe ndebug f g) h) i"

subsection \<open>Helpers the properties are stated with\<close>

text \<open>
  Modelled from the spec: \<^verbatim>\<open>identity\<close>, which the functor laws of \<^verbatim>\<open>lift_maybe\<close>
  mention and \<^verbatim>\<open>maybe.h\<close> does not define. It returns its argument and does nothing
  else.
\<close>

definition identity :: "'a \<Rightarrow> ('s, 'e, 'a) call" where
  "identity x = ret x"

text \<open>
  Modelled from the spec: \<^verbatim>\<open>compose\<close>, likewise absent from \<^verbatim>\<open>maybe.h\<close>.
  \<open>compose f g\<close> is the composition that calls \<open>g\<close> first and \<open>f\<close> on its result, the
  order in which the law "\<^verbatim>\<open>lift_maybe(compose(f,g))(m) ==
  lift_maybe(f)(lift_maybe(g)(m))\<close>" reads it. When \<open>g\<close> fails, \<open>f\<close> is not called.
\<close>

definition compose ::
  "('b \<Rightarrow> ('s, 'e, 'c) call) \<Rightarrow> ('a \<Rightarrow> ('s, 'e, 'b) call) \<Rightarrow> 'a \<Rightarrow> ('s, 'e, 'c) call" where
  "compose f g = (\<lambda>x. seq (g x) f)"

text \<open>
  Two ways to turn a HOL function into a callable, used in the worked examples: a pure
  callable, which leaves the state alone, and a stub that counts its invocations in a
  state that is the counter.
\<close>

definition pure_fn :: "('a \<Rightarrow> 'b) \<Rightarrow> 'a \<Rightarrow> ('s, 'e, 'b) call" where
  "pure_fn fn = (\<lambda>a. ret (fn a))"

definition counting :: "('a \<Rightarrow> 'b) \<Rightarrow> 'a \<Rightarrow> (nat, 'e, 'b) call" where
  "counting fn = (\<lambda>a n. (Inr (fn a), Suc n))"

subsection \<open>The store layer: copy assignment\<close>

text \<open>
  \<^verbatim>\<open>maybe<T>& operator = (const maybe<T>& other)\<close> (lines 36 to 40) receives two
  references, \<^verbatim>\<open>this\<close> and \<^verbatim>\<open>other\<close>, which may name the same object. Here a
  container is an object identified by a reference; its member \<^verbatim>\<open>ptr_\<close> holds an address
  or null, and the \<^verbatim>\<open>T\<close> objects made by \<^verbatim>\<open>new\<close> live in cells of the free store.
\<close>

type_synonym addr = nat
type_synonym ref = nat

record 'a store =
  heap :: "addr \<Rightarrow> 'a option"
  ptr_of :: "ref \<Rightarrow> addr option"

text \<open>The members \<^verbatim>\<open>is_just\<close> and \<^verbatim>\<open>unsafe_get_just\<close>, read off the store.\<close>

definition is_just_at :: "'a store \<Rightarrow> ref \<Rightarrow> bool" where
  "is_just_at s r = (ptr_of s r \<noteq> None)"

definition deref_at :: "'a store \<Rightarrow> addr option \<Rightarrow> ('e, 'a) result" where
  "deref_at s p = (case p of None \<Rightarrow> Inl UndefinedBehaviour | Some a \<Rightarrow> deref (heap s a))"

definition unsafe_get_just_at :: "bool \<Rightarrow> 'a store \<Rightarrow> ref \<Rightarrow> ('e, 'a) result" where
  "unsafe_get_just_at ndebug s r =
     then_result (cassert ndebug (is_just_at s r)) (\<lambda>_. deref_at s (ptr_of s r))"

text \<open>
  \<^verbatim>\<open>new T(v)\<close> copy-constructs a \<^verbatim>\<open>T\<close> in a cell chosen by the allocator, the
  parameter \<open>new\<close>, which sees the cells in use. \<^verbatim>\<open>delete\<close> releases a cell; releasing
  one that is not in use is undefined.
\<close>

definition new_T :: "((addr \<Rightarrow> 'a option) \<Rightarrow> addr) \<Rightarrow> 'a \<Rightarrow> 'a store \<Rightarrow> addr \<times> 'a store" where
  "new_T new v s = (let a = new (heap s) in (a, s\<lparr>heap := (heap s)(a \<mapsto> v)\<rparr>))"

definition delete_T :: "addr \<Rightarrow> 'a store \<Rightarrow> ('e, 'a store) result" where
  "delete_T a s =
     (if heap s a = None then Inl UndefinedBehaviour
      else Inr (s\<lparr>heap := (heap s)(a := None)\<rparr>))"

text \<open>
  Assigning a temporary \<^verbatim>\<open>unique_ptr\<close> to \<^verbatim>\<open>ptr_\<close> is the move assignment of
  \<^verbatim>\<open>unique_ptr\<close>, that is \<^verbatim>\<open>reset(u.release())\<close>: the member takes the new pointer,
  then the object it pointed to before, if any, is deleted.
\<close>

definition ptr_reset :: "ref \<Rightarrow> addr option \<Rightarrow> 'a store \<Rightarrow> ('e, 'a store) result" where
  "ptr_reset this p s =
     (let old = ptr_of s this;
          s1 = s\<lparr>ptr_of := (ptr_of s)(this := p)\<rparr>
      in case old of None \<Rightarrow> Inr s1 | Some a \<Rightarrow> delete_T a s1)"

text \<open>
  The right-hand side of line 38,
  \<^verbatim>\<open>other.is_just() ? ptr_t(new T(other.unsafe_get_just())) : ptr_t()\<close>,
  evaluated to the temporary pointer and the store it leaves.
\<close>

definition assign_rhs ::
  "bool \<Rightarrow> ((addr \<Rightarrow> 'a option) \<Rightarrow> addr) \<Rightarrow> ref \<Rightarrow> 'a store
     \<Rightarrow> ('e, addr option \<times> 'a store) result" where
  "assign_rhs ndebug new other s =
     (if is_just_at s other
      then then_result (unsafe_get_just_at ndebug s other)
             (\<lambda>v. case new_T new v s of (a, s1) \<Rightarrow> Inr (Some a, s1))
      else Inr (None, s))"

definition maybe_assign ::
  "bool \<Rightarrow> ((addr \<Rightarrow> 'a option) \<Rightarrow> addr) \<Rightarrow> ref \<Rightarrow> ref \<Rightarrow> 'a store \<Rightarrow> ('e, 'a store) result" where
  "maybe_assign ndebug new this other s =
     then_result (assign_rhs ndebug new other s) (\<lambda>(tmp, s1). ptr_reset this tmp s1)"

text \<open>
  What an observer sees of the container at \<open>r\<close>: the value-layer container it denotes,
  or \<open>None\<close> when its pointer dangles.
\<close>

definition view :: "'a store \<Rightarrow> ref \<Rightarrow> 'a maybe option" where
  "view s r = (case ptr_of s r of None \<Rightarrow> Some nothing | Some a \<Rightarrow> map_option just (heap s a))"

section \<open>Basic facts\<close>

lemma maybe_shape: "m = nothing \<or> (\<exists>v. m = just v)"
  by (cases m; cases "ptr m")
     (simp_all add: nothing_def just_def maybe_default_def maybe_from_value_def)

lemma is_just_just [simp]: "is_just (just v)"
  by (simp add: is_just_def maybe_is_just_def just_def maybe_from_value_def)

lemma is_just_nothing [simp]: "\<not> is_just nothing"
  by (simp add: is_just_def maybe_is_just_def nothing_def maybe_default_def)

lemma is_nothing_iff [simp]: "is_nothing m = (\<not> is_just m)"
  by (simp add: is_nothing_def)

lemma just_inject [simp]: "(just v = just w) = (v = w)"
  by (simp add: just_def maybe_from_value_def)

lemma just_not_nothing [simp]: "just v \<noteq> nothing" "nothing \<noteq> just v"
  by (simp_all add: just_def maybe_from_value_def nothing_def maybe_default_def)

lemma ptr_just [simp]: "ptr (just v) = Some v"
  by (simp add: just_def maybe_from_value_def)

lemma ptr_nothing [simp]: "ptr nothing = None"
  by (simp add: nothing_def maybe_default_def)

lemma then_result_simps [simp]:
  "then_result (Inr v) k = k v" "then_result (Inl err) k = Inl err"
  by (simp_all add: then_result_def)

lemma unsafe_get_just_just [simp]: "unsafe_get_just ndebug (just v) = Inr v"
  by (simp add: unsafe_get_just_def maybe_unsafe_get_just_def cassert_def deref_def
      maybe_is_just_def just_def maybe_from_value_def)

lemma unsafe_get_just_nothing:
  "unsafe_get_just ndebug nothing =
     (if ndebug then Inl UndefinedBehaviour else Inl AssertionFailure)"
  by (simp add: unsafe_get_just_def maybe_unsafe_get_just_def cassert_def deref_def
      maybe_is_just_def nothing_def maybe_default_def)

lemma seq_ret [simp]: "seq (ret v) k = k v"
  by (simp add: seq_def ret_def)

lemma seq_pure_result [simp]: "seq (pure_result (Inr v)) k = k v"
  by (simp add: seq_def pure_result_def)

text \<open>The two closures, spelled out on the outcome of the call they make.\<close>

lemma and_then_maybe_unfold:
  "and_then_maybe ndebug f g x s =
     (case f x s of
        (Inl err, s1) \<Rightarrow> (Inl err, s1)
      | (Inr maybeB, s1) \<Rightarrow>
          (case ptr maybeB of None \<Rightarrow> (Inr nothing, s1) | Some y \<Rightarrow> g y s1))"
proof (cases "f x s")
  case (Pair r s1)
  show ?thesis
  proof (cases r)
    case (Inl err)
    with Pair show ?thesis by (simp add: and_then_maybe_def seq_def)
  next
    case (Inr maybeB)
    with Pair maybe_shape [of maybeB] show ?thesis
      by (auto simp: and_then_maybe_def seq_def ret_def pure_result_def)
  qed
qed

lemma lift_maybe_unfold:
  "lift_maybe ndebug f m s =
     (case ptr m of
        None \<Rightarrow> (Inr nothing, s)
      | Some v \<Rightarrow>
          (case f v s of (Inl err, s1) \<Rightarrow> (Inl err, s1) | (Inr b, s1) \<Rightarrow> (Inr (just b), s1)))"
  using maybe_shape [of m]
  by (auto simp: lift_maybe_def seq_def ret_def pure_result_def split: prod.splits sum.splits)

lemma maybe_assign_steps:
  assumes "assign_rhs ndebug new other s = (Inr (tmp, s1) :: ('e, addr option \<times> 'a store) result)"
  shows "maybe_assign ndebug new this other s = (ptr_reset this tmp s1 :: ('e, 'a store) result)"
  using assms by (simp add: maybe_assign_def)

lemma assign_rhs_just:
  assumes "ptr_of s other = Some a" "heap s a = Some v"
  shows "assign_rhs ndebug new other s =
           Inr (Some (new (heap s)), s\<lparr>heap := (heap s)(new (heap s) \<mapsto> v)\<rparr>)"
  using assms
  by (simp add: assign_rhs_def is_just_at_def unsafe_get_just_at_def cassert_def deref_at_def
      deref_def new_T_def Let_def)

lemma view_cases:
  assumes "view s m = Some x"
  shows "(ptr_of s m = None \<and> x = nothing) \<or>
         (\<exists>a v. ptr_of s m = Some a \<and> heap s a = Some v \<and> x = just v)"
  using assms by (auto simp: view_def split: option.splits)

text \<open>
  The three-function chain, step by step: each stage runs only when the one before it
  returned a Just, in the state that stage left.
\<close>

lemma and_then_maybe3_steps:
  "and_then_maybe3 ndebug f g h x s =
     (case f x s of
        (Inl err, s1) \<Rightarrow> (Inl err, s1)
      | (Inr mb, s1) \<Rightarrow>
          (case ptr mb of
             None \<Rightarrow> (Inr nothing, s1)
           | Some y \<Rightarrow>
               (case g y s1 of
                  (Inl err, s2) \<Rightarrow> (Inl err, s2)
                | (Inr mc, s2) \<Rightarrow>
                    (case ptr mc of None \<Rightarrow> (Inr nothing, s2) | Some z \<Rightarrow> h z s2))))"
  by (simp add: and_then_maybe3_def and_then_maybe_unfold
      split: prod.splits sum.splits option.splits)

text \<open>On pure callables \<open>compose\<close> is the composition of functions.\<close>

lemma compose_pure_fn: "compose (pure_fn f) (pure_fn g) = pure_fn (\<lambda>x. f (g x))"
  by (rule ext) (simp add: compose_def pure_fn_def)

section \<open>The claims\<close>

text \<open>
  Claim C1. For callables \<open>f\<close> and \<open>g\<close> and an input \<open>x\<close>, in any state \<open>s\<close>: when the
  call \<open>f(x)\<close> returns Nothing and leaves the state \<open>s1\<close>, the function composed by
  \<^verbatim>\<open>and_then_maybe(f, g)\<close> returns Nothing and leaves that same state \<open>s1\<close>, whatever
  \<open>g\<close> is: \<open>g\<close> is not invoked. When \<open>f(x)\<close> returns Just \<open>y\<close>, the composed function is
  the call \<open>g(y)\<close> in the state \<open>f\<close> left.
\<close>

theorem and_then_maybe_short_circuit:
  "(f x s = (Inr nothing, s1) \<longrightarrow> and_then_maybe ndebug f g x s = (Inr nothing, s1)) \<and>
   (f x s = (Inr (just y), s1) \<longrightarrow> and_then_maybe ndebug f g x s = g y s1)"
proof (intro conjI impI)
  assume "f x s = (Inr nothing, s1)"
  then show "and_then_maybe ndebug f g x s = (Inr nothing, s1)"
    by (simp add: and_then_maybe_def seq_def ret_def)
next
  assume "f x s = (Inr (just y), s1)"
  then show "and_then_maybe ndebug f g x s = g y s1"
    by (simp add: and_then_maybe_def seq_def pure_result_def)
qed

text \<open>
  The scenario of the specification, with \<open>g\<close> a stub that counts its calls: at \<open>-3\<close>
  the first function yields Nothing and the counter stays at 0; at \<open>5\<close> the second
  function runs once.
\<close>

theorem and_then_maybe_short_circuit_witness:
  "pure_fn (\<lambda>x::int. if 0 < x then just (x * 2) else nothing) (- 3) (0::nat)
     = (Inr nothing :: (unit, int maybe) result, 0) \<and>
   and_then_maybe False
     (pure_fn (\<lambda>x::int. if 0 < x then just (x * 2) else nothing))
     (counting (\<lambda>x::int. if x < 100 then just (x + 1) else nothing))
     (- 3) (0::nat)
     = (Inr nothing :: (unit, int maybe) result, 0) \<and>
   pure_fn (\<lambda>x::int. if 0 < x then just (x * 2) else nothing) 5 (0::nat)
     = (Inr (just 10) :: (unit, int maybe) result, 0) \<and>
   and_then_maybe False
     (pure_fn (\<lambda>x::int. if 0 < x then just (x * 2) else nothing))
     (counting (\<lambda>x::int. if x < 100 then just (x + 1) else nothing))
     5 (0::nat)
     = (Inr (just 11) :: (unit, int maybe) result, 1)"
proof -
  let ?f = "pure_fn (\<lambda>x::int. if 0 < x then just (x * 2) else nothing)
              :: int \<Rightarrow> (nat, unit, int maybe) call"
  let ?g = "counting (\<lambda>x::int. if x < 100 then just (x + 1) else nothing)
              :: int \<Rightarrow> (nat, unit, int maybe) call"
  have a: "?f (- 3) 0 = (Inr nothing, 0)"
    by (simp add: pure_fn_def ret_def)
  have b: "?f 5 0 = (Inr (just 10), 0)"
    by (simp add: pure_fn_def ret_def)
  have c: "?g 10 0 = (Inr (just 11), 1)"
    by (simp add: counting_def)
  from and_then_maybe_short_circuit [of ?f "- 3" 0 0 False ?g 0] a
  have "and_then_maybe False ?f ?g (- 3) 0 = (Inr nothing, 0)"
    by blast
  moreover from and_then_maybe_short_circuit [of ?f 5 0 0 False ?g 10] b c
  have "and_then_maybe False ?f ?g 5 0 = (Inr (just 11), 1)"
    by simp
  ultimately show ?thesis
    using a b by simp
qed

text \<open>
  Claim C2. For a callable \<open>f\<close>: the function returned by \<^verbatim>\<open>lift_maybe(f)\<close>, applied to
  Just \<open>v\<close>, returns Just of what the call \<open>f(v)\<close> returns; applied to Nothing it
  returns Nothing and leaves the state as it found it, whatever \<open>f\<close> is: \<open>f\<close> is not
  invoked.
\<close>

theorem lift_maybe_applies:
  "(f v s = (Inr b, s1) \<longrightarrow> lift_maybe ndebug f (just v) s = (Inr (just b), s1)) \<and>
   lift_maybe ndebug f nothing s = (Inr nothing, s)"
proof (intro conjI impI)
  assume "f v s = (Inr b, s1)"
  then show "lift_maybe ndebug f (just v) s = (Inr (just b), s1)"
    by (simp add: lift_maybe_def seq_def ret_def pure_result_def)
next
  show "lift_maybe ndebug f nothing s = (Inr nothing, s)"
    by (simp add: lift_maybe_def ret_def)
qed

theorem lift_maybe_applies_witness:
  "counting (\<lambda>x::int. x + 1) 4 (0::nat) = (Inr 5 :: (unit, int) result, 1) \<and>
   lift_maybe False (counting (\<lambda>x::int. x + 1)) (just 4) (0::nat)
     = (Inr (just 5) :: (unit, int maybe) result, 1) \<and>
   lift_maybe False (counting (\<lambda>x::int. x + 1)) nothing (0::nat)
     = (Inr nothing :: (unit, int maybe) result, 0)"
proof -
  let ?f = "counting (\<lambda>x::int. x + 1) :: int \<Rightarrow> (nat, unit, int) call"
  have a: "?f 4 0 = (Inr 5, 1)"
    by (simp add: counting_def)
  from lift_maybe_applies [of ?f 4 0 5 1 False] a show ?thesis
    by simp
qed

text \<open>
  Claim C3, as amended. On a container in the Just state \<^verbatim>\<open>unsafe_get_just\<close> returns
  the held value, in every build. On a container in the Nothing state it terminates
  through the failed assertion, returning nothing at all, in a build with assertions
  enabled (\<^verbatim>\<open>NDEBUG\<close> not defined); in a build with \<^verbatim>\<open>NDEBUG\<close> defined the assertion
  is compiled out and the call dereferences a null pointer, which is undefined
  behaviour.
\<close>

theorem unsafe_get_just_contract:
  "unsafe_get_just ndebug (just v) = Inr v \<and>
   unsafe_get_just False nothing = Inl AssertionFailure \<and>
   unsafe_get_just True nothing = Inl UndefinedBehaviour"
  by (simp add: unsafe_get_just_nothing)

theorem unsafe_get_just_contract_witness:
  "unsafe_get_just True (just (3::int)) = (Inr 3 :: (unit, int) result) \<and>
   unsafe_get_just False (nothing :: int maybe) = (Inl AssertionFailure :: (unit, int) result)"
proof -
  have "unsafe_get_just True (just (3::int)) = (Inr 3 :: (unit, int) result) \<and>
        unsafe_get_just False (nothing :: int maybe) = (Inl AssertionFailure :: (unit, int) result) \<and>
        unsafe_get_just True (nothing :: int maybe) = (Inl UndefinedBehaviour :: (unit, int) result)"
    by (rule unsafe_get_just_contract)
  then show ?thesis
    by simp
qed

text \<open>
  The claim as written, that the call on Nothing always ends in the assertion failure,
  does not hold of a build with \<^verbatim>\<open>NDEBUG\<close> defined.
\<close>

theorem unsafe_get_just_ndebug_counterexample:
  "unsafe_get_just True (nothing :: int maybe) \<noteq> (Inl AssertionFailure :: (unit, int) result)"
  by (simp add: unsafe_get_just_nothing)

text \<open>
  Claim C4. For an error value \<open>e\<close> and a container \<open>m\<close>: \<^verbatim>\<open>throw_on_nothing(e, m)\<close>
  returns the held value when \<open>m\<close> is Just, throws \<open>e\<close> when \<open>m\<close> is Nothing, throws \<open>e\<close>
  only when \<open>m\<close> is Nothing, and fails in no other way.
\<close>

theorem throw_on_nothing_raises:
  "throw_on_nothing ndebug e (just v) = Inr v \<and>
   throw_on_nothing ndebug e nothing = Inl (Exception e) \<and>
   (throw_on_nothing ndebug e m = Inl (Exception e)) = is_nothing m \<and>
   isl (throw_on_nothing ndebug e m) = is_nothing m"
  using maybe_shape [of m] by (auto simp: throw_on_nothing_def)

theorem throw_on_nothing_raises_witness:
  "throw_on_nothing False ''empty'' (just (3::int)) = Inr 3 \<and>
   throw_on_nothing False ''empty'' (nothing :: int maybe) = Inl (Exception ''empty'')"
proof -
  have "throw_on_nothing False ''empty'' (just (3::int)) = Inr 3 \<and>
        throw_on_nothing False ''empty'' (nothing :: int maybe) = Inl (Exception ''empty'') \<and>
        (throw_on_nothing False ''empty'' (nothing :: int maybe) = Inl (Exception ''empty''))
          = is_nothing (nothing :: int maybe) \<and>
        isl (throw_on_nothing False ''empty'' (nothing :: int maybe))
          = is_nothing (nothing :: int maybe)"
    by (rule throw_on_nothing_raises)
  then show ?thesis
    by simp
qed

text \<open>
  Claim C5. \<^verbatim>\<open>flatten_maybe\<close> returns Nothing when the outer container is Nothing and
  the inner container, unchanged, otherwise; so Just (Just \<open>v\<close>) becomes Just \<open>v\<close>, and
  Just Nothing and Nothing both become Nothing.
\<close>

theorem flatten_maybe_join:
  "flatten_maybe ndebug mm = Inr (case ptr mm of None \<Rightarrow> nothing | Some inner \<Rightarrow> inner) \<and>
   flatten_maybe ndebug (just (just v)) = Inr (just v) \<and>
   flatten_maybe ndebug (just nothing) = Inr nothing \<and>
   flatten_maybe ndebug nothing = Inr nothing"
  using maybe_shape [of mm] by (auto simp: flatten_maybe_def)

theorem flatten_maybe_join_witness:
  "flatten_maybe False (just (just (3::int))) = (Inr (just 3) :: (unit, int maybe) result)"
proof -
  have "flatten_maybe False (just (just (3::int)))
          = (Inr (case ptr (just (just (3::int))) of None \<Rightarrow> nothing | Some inner \<Rightarrow> inner)
               :: (unit, int maybe) result) \<and>
        flatten_maybe False (just (just (3::int))) = (Inr (just 3) :: (unit, int maybe) result) \<and>
        flatten_maybe False (just (nothing :: int maybe))
          = (Inr nothing :: (unit, int maybe) result) \<and>
        flatten_maybe False (nothing :: int maybe maybe)
          = (Inr nothing :: (unit, int maybe) result)"
    by (rule flatten_maybe_join)
  then show ?thesis
    by simp
qed

text \<open>
  Claim C6. \<open>x == y\<close> holds exactly when both containers are Nothing, or both are Just
  and \<^verbatim>\<open>T\<close>'s own equality holds of the two held values; \<open>x != y\<close> is its negation.
\<close>

theorem maybe_eq_iff:
  "maybe_eq ndebug eqT x y =
     Inr ((is_nothing x \<and> is_nothing y) \<or> (\<exists>v w. x = just v \<and> y = just w \<and> eqT v w)) \<and>
   maybe_neq ndebug eqT x y =
     Inr (\<not> ((is_nothing x \<and> is_nothing y) \<or> (\<exists>v w. x = just v \<and> y = just w \<and> eqT v w)))"
  using maybe_shape [of x] maybe_shape [of y] by (auto simp: maybe_eq_def maybe_neq_def)

theorem maybe_eq_iff_witness:
  "maybe_eq False (\<lambda>a b. a = b) (just (3::int)) (just 3) = (Inr True :: (unit, bool) result) \<and>
   maybe_neq False (\<lambda>a b. a = b) (just (3::int)) (just 3) = (Inr False :: (unit, bool) result)"
proof -
  let ?x = "just (3::int)"
  let ?P = "(is_nothing ?x \<and> is_nothing ?x) \<or> (\<exists>v w. ?x = just v \<and> ?x = just w \<and> v = w)"
  have "maybe_eq False (\<lambda>a b. a = b) ?x ?x = (Inr ?P :: (unit, bool) result) \<and>
        maybe_neq False (\<lambda>a b. a = b) ?x ?x = (Inr (\<not> ?P) :: (unit, bool) result)"
    by (rule maybe_eq_iff)
  then show ?thesis
    by simp
qed

text \<open>
  Claim C7. The functor laws of \<^verbatim>\<open>lift_maybe\<close>: lifting \<open>identity\<close> returns the container
  it is given; lifting \<open>compose f g\<close> and applying it to \<open>m\<close> is the same call as applying
  the lifted \<open>g\<close> to \<open>m\<close> and then the lifted \<open>f\<close> to the result. The last conjunct is the
  law in the point-free form of the specification.
\<close>

theorem lift_maybe_functor:
  "lift_maybe ndebug identity m = ret m \<and>
   lift_maybe ndebug (compose f g) m = seq (lift_maybe ndebug g m) (lift_maybe ndebug f) \<and>
   lift_maybe ndebug (compose f g) = compose (lift_maybe ndebug f) (lift_maybe ndebug g)"
proof -
  have a: "lift_maybe ndebug identity m = ret m"
    using maybe_shape [of m] by (auto simp: lift_maybe_def identity_def)
  have b: "lift_maybe ndebug (compose f g) m' = seq (lift_maybe ndebug g m') (lift_maybe ndebug f)"
    for m'
  proof (rule ext)
    fix s
    show "lift_maybe ndebug (compose f g) m' s
            = seq (lift_maybe ndebug g m') (lift_maybe ndebug f) s"
      using maybe_shape [of m']
      by (auto simp: lift_maybe_unfold compose_def seq_def split: prod.splits sum.splits)
  qed
  have c: "lift_maybe ndebug (compose f g) = compose (lift_maybe ndebug f) (lift_maybe ndebug g)"
  proof (rule ext)
    fix m'
    have "compose (lift_maybe ndebug f) (lift_maybe ndebug g) m'
            = seq (lift_maybe ndebug g m') (lift_maybe ndebug f)"
      by (simp add: compose_def)
    with b [of m'] show "lift_maybe ndebug (compose f g) m'
            = compose (lift_maybe ndebug f) (lift_maybe ndebug g) m'"
      by simp
  qed
  from a b c show ?thesis by blast
qed

theorem lift_maybe_functor_witness:
  "lift_maybe False identity (just (3::int)) (0::nat)
     = (Inr (just 3) :: (unit, int maybe) result, 0) \<and>
   lift_maybe False (compose (counting (\<lambda>x::int. x + 1)) (counting (\<lambda>x::int. x * 2)))
       (just 3) (0::nat)
     = (Inr (just 7) :: (unit, int maybe) result, 2) \<and>
   seq (lift_maybe False (counting (\<lambda>x::int. x * 2)) (just 3))
       (lift_maybe False (counting (\<lambda>x::int. x + 1))) (0::nat)
     = (Inr (just 7) :: (unit, int maybe) result, 2)"
proof -
  let ?f = "counting (\<lambda>x::int. x + 1) :: int \<Rightarrow> (nat, unit, int) call"
  let ?g = "counting (\<lambda>x::int. x * 2) :: int \<Rightarrow> (nat, unit, int) call"
  have r: "seq (lift_maybe False ?g (just 3)) (lift_maybe False ?f) 0 = (Inr (just 7), 2)"
    by (simp add: seq_def lift_maybe_unfold counting_def)
  have i: "(ret (just (3::int)) :: (nat, unit, int maybe) call) 0 = (Inr (just 3), 0)"
    by (simp add: ret_def)
  have "lift_maybe False identity (just (3::int)) = (ret (just 3) :: (nat, unit, int maybe) call) \<and>
        lift_maybe False (compose ?f ?g) (just 3)
          = seq (lift_maybe False ?g (just 3)) (lift_maybe False ?f) \<and>
        lift_maybe False (compose ?f ?g) = compose (lift_maybe False ?f) (lift_maybe False ?g)"
    by (rule lift_maybe_functor)
  then have a: "lift_maybe False identity (just (3::int))
                  = (ret (just 3) :: (nat, unit, int maybe) call)"
    and b: "lift_maybe False (compose ?f ?g) (just 3)
              = seq (lift_maybe False ?g (just 3)) (lift_maybe False ?f)"
    by blast+
  show ?thesis
    by (simp only: a b r i)
qed

text \<open>
  Claim C8. \<^verbatim>\<open>just_with_default(d, m)\<close> always returns: the held value when \<open>m\<close> is
  Just, \<open>d\<close> when \<open>m\<close> is Nothing; it fails for no \<open>d\<close> and \<open>m\<close>, in no build.
\<close>

theorem just_with_default_total:
  "just_with_default ndebug d (just v) = Inr v \<and>
   just_with_default ndebug d nothing = Inr d \<and>
   (\<exists>r. just_with_default ndebug d m = Inr r)"
  using maybe_shape [of m] by (auto simp: just_with_default_def)

theorem just_with_default_total_witness:
  "just_with_default True (0::int) (just 3) = (Inr 3 :: (unit, int) result) \<and>
   just_with_default True (0::int) nothing = (Inr 0 :: (unit, int) result)"
proof -
  have "just_with_default True (0::int) (just 3) = (Inr 3 :: (unit, int) result) \<and>
        just_with_default True (0::int) nothing = (Inr 0 :: (unit, int) result) \<and>
        (\<exists>r. just_with_default True (0::int) nothing = (Inr r :: (unit, int) result))"
    by (rule just_with_default_total)
  then show ?thesis
    by simp
qed

text \<open>
  Claim C9. The three- and the four-function overloads of \<^verbatim>\<open>and_then_maybe\<close> are, at
  every input and in every state, the two-function bind applied repeatedly, associated
  to the left.
\<close>

theorem and_then_maybe_chain:
  "and_then_maybe3 ndebug f g h x s
     = and_then_maybe ndebug (and_then_maybe ndebug f g) h x s \<and>
   and_then_maybe4 ndebug f g h i x s
     = and_then_maybe ndebug (and_then_maybe ndebug (and_then_maybe ndebug f g) h) i x s"
  by (simp add: and_then_maybe3_def and_then_maybe4_def)

theorem and_then_maybe_chain_witness:
  "and_then_maybe3 False
     (counting (\<lambda>x::int. if 0 < x then just (x * 2) else nothing))
     (counting (\<lambda>x::int. if x < 100 then just (x + 1) else nothing))
     (counting (\<lambda>x::int. just (x - 1)))
     5 (0::nat)
   = (Inr (just 10) :: (unit, int maybe) result, 3)"
proof -
  let ?f = "counting (\<lambda>x::int. if 0 < x then just (x * 2) else nothing)
              :: int \<Rightarrow> (nat, unit, int maybe) call"
  let ?g = "counting (\<lambda>x::int. if x < 100 then just (x + 1) else nothing)
              :: int \<Rightarrow> (nat, unit, int maybe) call"
  let ?h = "counting (\<lambda>x::int. just (x - 1)) :: int \<Rightarrow> (nat, unit, int maybe) call"
  have "and_then_maybe False (and_then_maybe False ?f ?g) ?h 5 0 = (Inr (just 10), 3)"
    by (simp add: and_then_maybe_unfold counting_def)
  moreover have "and_then_maybe3 False ?f ?g ?h 5 0
          = and_then_maybe False (and_then_maybe False ?f ?g) ?h 5 0 \<and>
        and_then_maybe4 False ?f ?g ?h ?h 5 0
          = and_then_maybe False (and_then_maybe False (and_then_maybe False ?f ?g) ?h) ?h 5 0"
    by (rule and_then_maybe_chain)
  ultimately show ?thesis
    by simp
qed

text \<open>
  Claim C10. Self-assignment preserves the container. Let the container at \<open>m\<close> denote
  \<open>x\<close> (Nothing, or Just of a value held in a live cell), and let the allocator hand out a
  cell that is not in use. Then \<open>m = m\<close> returns, and afterwards the container at \<open>m\<close> still
  denotes \<open>x\<close>. The right-hand side is evaluated first: the store \<open>s1\<close> in which the copy
  has been made still holds the old value of \<open>m\<close>, and only then does the reset of
  \<^verbatim>\<open>ptr_\<close> release the old cell.
\<close>

theorem self_assignment_preserves:
  assumes "view s m = Some x" and "heap s (new (heap s)) = None"
  shows "\<exists>tmp s1 s'.
           assign_rhs ndebug new m s = (Inr (tmp, s1) :: ('e, addr option \<times> 'a store) result) \<and>
           view s1 m = Some x \<and>
           ptr_reset m tmp s1 = (Inr s' :: ('e, 'a store) result) \<and>
           maybe_assign ndebug new m m s = (Inr s' :: ('e, 'a store) result) \<and>
           view s' m = Some x"
proof -
  from view_cases [OF assms(1)] show ?thesis
  proof
    assume n: "ptr_of s m = None \<and> x = nothing"
    define s' where "s' = s\<lparr>ptr_of := (ptr_of s)(m := None)\<rparr>"
    have r: "assign_rhs ndebug new m s = (Inr (None, s) :: ('e, addr option \<times> 'a store) result)"
      using n by (simp add: assign_rhs_def is_just_at_def)
    have p: "ptr_reset m None s = (Inr s' :: ('e, 'a store) result)"
      using n by (simp add: ptr_reset_def s'_def)
    have v': "view s' m = Some x"
      using n by (simp add: view_def s'_def)
    from r assms(1) p maybe_assign_steps [OF r, of m] v' show ?thesis
      by metis
  next
    assume "\<exists>a v. ptr_of s m = Some a \<and> heap s a = Some v \<and> x = just v"
    then obtain a v where j: "ptr_of s m = Some a" "heap s a = Some v" "x = just v"
      by blast
    define n where "n = new (heap s)"
    define s1 where "s1 = s\<lparr>heap := (heap s)(n \<mapsto> v)\<rparr>"
    define s' where "s' = s1\<lparr>ptr_of := (ptr_of s1)(m := Some n), heap := (heap s1)(a := None)\<rparr>"
    have ne: "n \<noteq> a"
      using assms(2) j(2) by (auto simp: n_def)
    have r: "assign_rhs ndebug new m s
               = (Inr (Some n, s1) :: ('e, addr option \<times> 'a store) result)"
      using assign_rhs_just [OF j(1) j(2)] by (simp add: n_def s1_def)
    have v1: "view s1 m = Some x"
      using j ne by (simp add: view_def s1_def)
    have p: "ptr_reset m (Some n) s1 = (Inr s' :: ('e, 'a store) result)"
      using j ne by (simp add: ptr_reset_def delete_T_def s1_def s'_def)
    have v': "view s' m = Some x"
      using j ne by (simp add: view_def s1_def s'_def)
    from r v1 p maybe_assign_steps [OF r, of m] v' show ?thesis
      by metis
  qed
qed

text \<open>
  A container holding 7 in cell 0, the allocator handing out cell 1: after \<open>m = m\<close> the
  container still holds 7.
\<close>

theorem self_assignment_preserves_witness:
  "view \<lparr>heap = [0 \<mapsto> (7::int)], ptr_of = (\<lambda>_. None)(0 := Some 0)\<rparr> 0 = Some (just 7) \<and>
   heap \<lparr>heap = [0 \<mapsto> (7::int)], ptr_of = (\<lambda>_. None)(0 := Some 0)\<rparr> 1 = None \<and>
   (\<exists>s'. maybe_assign False (\<lambda>_. 1) 0 0
            \<lparr>heap = [0 \<mapsto> (7::int)], ptr_of = (\<lambda>_. None)(0 := Some 0)\<rparr>
            = (Inr s' :: (unit, int store) result) \<and>
          view s' 0 = Some (just 7))"
proof -
  let ?s = "\<lparr>heap = [0 \<mapsto> (7::int)], ptr_of = (\<lambda>_. None)(0 := Some 0)\<rparr>"
  have v: "view ?s 0 = Some (just 7)"
    by (simp add: view_def)
  have f: "heap ?s ((\<lambda>_. 1) (heap ?s)) = None"
    by simp
  from self_assignment_preserves [OF v f, of False, where ?'e = unit] v f show ?thesis
    by auto
qed

end
